theory Spec2Isabelle
  imports Main
begin

section \<open>The scanner configuration script\<close>

text \<open>
  A shallow embedding of \<^verbatim>\<open>configure_scanner.py\<close>. The script is a sequence of calls to
  external programs driven by module-level variables read from the process environment.
  The embedding keeps the module-level variables as a record, the exceptions as values,
  and every interaction with the outside (file tests, sleeps, subprocess calls, the
  interactive child) as an event appended to a trace. What the outside answers is given
  by a \<open>world\<close>: functions from the trace so far to the answer of the next interaction.
  \<^verbatim>\<open>custom_print\<close> only writes a line to standard output and never influences control
  flow; the log lines are left out of the trace.
\<close>

subsection \<open>Python values\<close>

datatype pyval = PNone | PBool bool | PInt int | PStr string

text \<open>Truth value of an object, as tested by \<^verbatim>\<open>if x\<close> and \<^verbatim>\<open>not x\<close>.\<close>

fun truthy :: "pyval \<Rightarrow> bool" where
  "truthy PNone = False"
| "truthy (PBool b) = b"
| "truthy (PInt n) = (n \<noteq> 0)"
| "truthy (PStr s) = (s \<noteq> [])"

text \<open>A variable read with \<^verbatim>\<open>os.getenv(k, None)\<close> is a string or \<^verbatim>\<open>None\<close>.\<close>

fun opt_val :: "string option \<Rightarrow> pyval" where
  "opt_val None = PNone"
| "opt_val (Some s) = PStr s"

function show_nat :: "nat \<Rightarrow> string" where
  "show_nat n =
     (if n < 10 then [char_of (48 + n)]
      else show_nat (n div 10) @ [char_of (48 + n mod 10)])"
  by pat_completeness auto
termination
  by (relation "measure (\<lambda>n. n)") auto

text \<open>\<^verbatim>\<open>str(x)\<close>.\<close>

fun py_str :: "pyval \<Rightarrow> string" where
  "py_str PNone = ''None''"
| "py_str (PBool b) = (if b then ''True'' else ''False'')"
| "py_str (PInt n) = (if n < 0 then CHR ''-'' # show_nat (nat (- n)) else show_nat (nat n))"
| "py_str (PStr s) = s"

text \<open>\<^verbatim>\<open>needle in haystack\<close> on strings.\<close>

fun contains :: "string \<Rightarrow> string \<Rightarrow> bool" where
  "contains sub [] = (sub = [])"
| "contains sub (c # cs) = (take (length sub) (c # cs) = sub \<or> contains sub cs)"

subsection \<open>Exceptions\<close>

datatype error =
    NameError string
  | ValueError
  | TypeError
  | OSError
  | UnicodeDecodeError
  | PexpectTIMEOUT
  | PexpectEOF
  | ExceptionPexpect

subsection \<open>Module-level configuration\<close>

text \<open>
  The module-level variables, lines 27 to 50. A variable whose default is \<^verbatim>\<open>None\<close> is a
  \<open>string option\<close>; one whose default is a string is a \<open>string\<close>; the three whose
  default is not a string (\<^verbatim>\<open>120\<close>, \<^verbatim>\<open>False\<close>, \<^verbatim>\<open>30\<close>) are Python values.
\<close>

record config =
  GLOBAL_DB_TIMEOUT :: pyval
  ACTIVATION_CODE :: "string option"
  NAME :: string
  USERNAME :: "string option"
  PASSWORD :: "string option"
  AUTO_UPDATE :: string
  DISABLE_CORE_UPDATES :: string
  LINKING_KEY :: "string option"
  MANAGER_HOST :: string
  MANAGER_PORT :: string
  SELF_HOST :: string
  SELF_PORT :: string
  RETRY_ON_FAIL :: pyval
  RETRY_ON_FAIL_SLEEP :: pyval
  PROXY :: "string option"
  PROXY_PORT :: "string option"
  PROXY_USER :: "string option"
  PROXY_PASS :: "string option"

text \<open>\<^verbatim>\<open>os.getenv(k, d)\<close>: the value of the variable when it is set, the default otherwise.\<close>

definition getenv :: "(string \<rightharpoonup> string) \<Rightarrow> string \<Rightarrow> pyval \<Rightarrow> pyval" where
  "getenv env k d = (case env k of None \<Rightarrow> d | Some s \<Rightarrow> PStr s)"

definition getenv_str :: "(string \<rightharpoonup> string) \<Rightarrow> string \<Rightarrow> string \<Rightarrow> string" where
  "getenv_str env k d = (case env k of None \<Rightarrow> d | Some s \<Rightarrow> s)"

text \<open>The module body up to line 50; \<open>hostname\<close> is \<^verbatim>\<open>socket.gethostname()\<close>.\<close>

definition load_config :: "string \<Rightarrow> (string \<rightharpoonup> string) \<Rightarrow> config" where
  "load_config hostname env =
     (let name = getenv_str env ''NAME'' hostname in
      \<lparr> GLOBAL_DB_TIMEOUT = getenv env ''GLOBAL_DB_TIMEOUT'' (PInt 120),
        ACTIVATION_CODE = env ''ACTIVATION_CODE'',
        NAME = name,
        USERNAME = env ''USERNAME'',
        PASSWORD = env ''PASSWORD'',
        AUTO_UPDATE = getenv_str env ''AUTO_UPDATE'' ''all'',
        DISABLE_CORE_UPDATES = getenv_str env ''DISABLE_CORE_UPDATES'' ''no'',
        LINKING_KEY = env ''LINKING_KEY'',
        MANAGER_HOST = getenv_str env ''MANAGER_HOST'' ''cloud.tenable.com'',
        MANAGER_PORT = getenv_str env ''MANAGER_PORT'' ''443'',
        SELF_HOST = getenv_str env ''SELF_HOST'' name,
        SELF_PORT = getenv_str env ''SELF_PORT'' ''8834'',
        RETRY_ON_FAIL = getenv env ''RETRY_ON_FAIL'' (PBool False),
        RETRY_ON_FAIL_SLEEP = getenv env ''RETRY_ON_FAIL_SLEEP'' (PInt 30),
        PROXY = env ''PROXY'',
        PROXY_PORT = env ''PROXY_PORT'',
        PROXY_USER = env ''PROXY_USER'',
        PROXY_PASS = env ''PROXY_PASS'' \<rparr>)"

text \<open>
  The variables a function body can read by name. Besides these the module namespace
  holds the imported modules, \<^verbatim>\<open>__version__\<close>, the functions and, once the main block
  runs, \<^verbatim>\<open>gdb_created\<close>, \<^verbatim>\<open>user_added\<close>, \<^verbatim>\<open>cli_configured\<close>, \<^verbatim>\<open>activated\<close> and
  \<^verbatim>\<open>configured\<close>. A name found neither among the locals of the function nor here nor
  among the builtins raises \<^verbatim>\<open>NameError\<close> when it is evaluated.
\<close>

definition module_globals :: "config \<Rightarrow> (string \<times> pyval) list" where
  "module_globals cfg =
     [(''GLOBAL_DB_TIMEOUT'', GLOBAL_DB_TIMEOUT cfg),
      (''ACTIVATION_CODE'', opt_val (ACTIVATION_CODE cfg)),
      (''NAME'', PStr (NAME cfg)),
      (''USERNAME'', opt_val (USERNAME cfg)),
      (''PASSWORD'', opt_val (PASSWORD cfg)),
      (''AUTO_UPDATE'', PStr (AUTO_UPDATE cfg)),
      (''DISABLE_CORE_UPDATES'', PStr (DISABLE_CORE_UPDATES cfg)),
      (''LINKING_KEY'', opt_val (LINKING_KEY cfg)),
      (''MANAGER_HOST'', PStr (MANAGER_HOST cfg)),
      (''MANAGER_PORT'', PStr (MANAGER_PORT cfg)),
      (''SELF_HOST'', PStr (SELF_HOST cfg)),
      (''SELF_PORT'', PStr (SELF_PORT cfg)),
      (''RETRY_ON_FAIL'', RETRY_ON_FAIL cfg),
      (''RETRY_ON_FAIL_SLEEP'', RETRY_ON_FAIL_SLEEP cfg),
      (''PROXY'', opt_val (PROXY cfg)),
      (''PROXY_PORT'', opt_val (PROXY_PORT cfg)),
      (''PROXY_USER'', opt_val (PROXY_USER cfg)),
      (''PROXY_PASS'', opt_val (PROXY_PASS cfg))]"

subsection \<open>The outside world\<close>

datatype call_outcome = Returned int | CallRaises

datatype output_outcome = Output string | NonZeroExit | OutputRaises

datatype expect_outcome = Matched nat | Timeout | Eof

datatype event =
    Exists string
  | Getsize string
  | Sleep int
  | Call "string list"
  | Check_output "string list"
  | Spawn string
  | Expect "string list" expect_outcome
  | Sendline string
  | Kill int

type_synonym trace = "event list"

text \<open>
  The answers of the interpreter and of the environment. Each answer may depend on
  everything that has happened so far.
  \<^item> \<open>version_info\<close>: major and minor number of \<^verbatim>\<open>sys.version_info\<close>;
  \<^item> \<open>int_of_str\<close>: \<^verbatim>\<open>int(s)\<close> on a string, \<open>None\<close> when it raises \<^verbatim>\<open>ValueError\<close>;
  \<^item> \<open>decode_utf8\<close>: \<^verbatim>\<open>b.decode("utf-8")\<close>, \<open>None\<close> when it raises
    \<^verbatim>\<open>UnicodeDecodeError\<close>;
  \<^item> \<open>path_exists\<close>, \<open>path_size\<close>: \<^verbatim>\<open>os.path.exists\<close> and \<^verbatim>\<open>os.path.getsize\<close>
    (\<open>None\<close> when the latter raises \<^verbatim>\<open>OSError\<close>);
  \<^item> \<open>call_status\<close>: the exit status \<^verbatim>\<open>subprocess.call\<close> returns, or that it raises
    (the executable cannot be started);
  \<^item> \<open>check_output_result\<close>: the bytes \<^verbatim>\<open>subprocess.check_output\<close> returns, or
    \<^verbatim>\<open>CalledProcessError\<close> on a non-zero exit status, or another exception;
  \<^item> \<open>spawn_ok\<close>: whether \<^verbatim>\<open>pexpect.spawn\<close> starts the child;
  \<^item> \<open>send_ok\<close>: whether \<^verbatim>\<open>child.sendline\<close> can write to the child (it raises
    \<^verbatim>\<open>OSError\<close> otherwise);
  \<^item> \<open>child_reply\<close>: what \<^verbatim>\<open>child.expect\<close> meets for a list of patterns: the index
    of the pattern matched, the timeout, or the end of the child's output.
\<close>

record world =
  version_info :: "nat \<times> nat"
  int_of_str :: "string \<Rightarrow> int option"
  decode_utf8 :: "string \<Rightarrow> string option"
  path_exists :: "trace \<Rightarrow> string \<Rightarrow> bool"
  path_size :: "trace \<Rightarrow> string \<Rightarrow> nat option"
  call_status :: "trace \<Rightarrow> string list \<Rightarrow> call_outcome"
  check_output_result :: "trace \<Rightarrow> string list \<Rightarrow> output_outcome"
  spawn_ok :: "trace \<Rightarrow> string \<Rightarrow> bool"
  send_ok :: "trace \<Rightarrow> string \<Rightarrow> bool"
  child_reply :: "trace \<Rightarrow> string list \<Rightarrow> expect_outcome"

subsection \<open>Computations with exceptions and a trace\<close>

type_synonym 'a prog = "trace \<Rightarrow> (error + 'a) \<times> trace"

definition ret :: "'a \<Rightarrow> 'a prog" where
  "ret x tr = (Inr x, tr)"

definition raise :: "error \<Rightarrow> 'a prog" where
  "raise e tr = (Inl e, tr)"

definition bind :: "'a prog \<Rightarrow> ('a \<Rightarrow> 'b prog) \<Rightarrow> 'b prog" where
  "bind m f tr = (case m tr of (Inl e, tr') \<Rightarrow> (Inl e, tr') | (Inr x, tr') \<Rightarrow> f x tr')"

text \<open>\<^verbatim>\<open>int(x)\<close>.\<close>

definition py_int :: "world \<Rightarrow> pyval \<Rightarrow> int prog" where
  "py_int w x =
     (case x of
        PNone \<Rightarrow> raise TypeError
      | PBool b \<Rightarrow> ret (if b then 1 else 0)
      | PInt n \<Rightarrow> ret n
      | PStr s \<Rightarrow> (case int_of_str w s of None \<Rightarrow> raise ValueError | Some n \<Rightarrow> ret n))"

text \<open>\<^verbatim>\<open>time.sleep(n)\<close>: a negative length raises before any sleeping.\<close>

definition sleep :: "int \<Rightarrow> unit prog" where
  "sleep n tr = (if n < 0 then (Inl ValueError, tr) else (Inr (), tr @ [Sleep n]))"

definition path_exists_io :: "world \<Rightarrow> string \<Rightarrow> bool prog" where
  "path_exists_io w p tr = (Inr (path_exists w tr p), tr @ [Exists p])"

definition path_getsize :: "world \<Rightarrow> string \<Rightarrow> nat prog" where
  "path_getsize w p tr =
     (case path_size w tr p of
        None \<Rightarrow> (Inl OSError, tr @ [Getsize p])
      | Some n \<Rightarrow> (Inr n, tr @ [Getsize p]))"

text \<open>\<^verbatim>\<open>subprocess.call(cmd)\<close>.\<close>

definition subprocess_call :: "world \<Rightarrow> string list \<Rightarrow> int prog" where
  "subprocess_call w cmd tr =
     (case call_status w tr cmd of
        CallRaises \<Rightarrow> (Inl OSError, tr @ [Call cmd])
      | Returned rc \<Rightarrow> (Inr rc, tr @ [Call cmd]))"

subsection \<open>Waiting for the database\<close>

definition global_db :: string where
  "global_db = ''/opt/nessus/var/nessus/global.db''"

text \<open>
  The body of the \<^verbatim>\<open>for\<close> loop of \<^verbatim>\<open>wait_for_global_db\<close>, run for the remaining number of
  iterations; \<^verbatim>\<open>and\<close> evaluates the size only when the file exists.
\<close>

fun poll_global_db :: "world \<Rightarrow> nat \<Rightarrow> bool prog" where
  "poll_global_db w 0 tr = (Inr False, tr)"
| "poll_global_db w (Suc n) tr =
     (case path_exists_io w global_db tr of
        (Inl e, tr1) \<Rightarrow> (Inl e, tr1)
      | (Inr False, tr1) \<Rightarrow>
          (case sleep 1 tr1 of
             (Inl e, tr2) \<Rightarrow> (Inl e, tr2)
           | (Inr _, tr2) \<Rightarrow> poll_global_db w n tr2)
      | (Inr True, tr1) \<Rightarrow>
          (case path_getsize w global_db tr1 of
             (Inl e, tr2) \<Rightarrow> (Inl e, tr2)
           | (Inr sz, tr2) \<Rightarrow>
               if 0 < sz then (Inr True, tr2)
               else (case sleep 1 tr2 of
                       (Inl e, tr3) \<Rightarrow> (Inl e, tr3)
                     | (Inr _, tr3) \<Rightarrow> poll_global_db w n tr3)))"

text \<open>\<^verbatim>\<open>range(0, timeout)\<close> is empty for a timeout that is not positive.\<close>

definition wait_for_global_db :: "config \<Rightarrow> world \<Rightarrow> bool prog" where
  "wait_for_global_db cfg w =
     bind (py_int w (GLOBAL_DB_TIMEOUT cfg)) (\<lambda>timeout. poll_global_db w (nat timeout))"

subsection \<open>Settings and activation\<close>

definition nessuscli :: string where
  "nessuscli = ''/opt/nessus/sbin/nessuscli''"

definition nessus_config :: "world \<Rightarrow> pyval \<Rightarrow> pyval \<Rightarrow> bool \<Rightarrow> bool prog" where
  "nessus_config w setting val secure =
     (let cmd = [nessuscli, ''fix'', ''--set'']
                @ (if secure then [''--secure''] else [])
                @ [py_str setting @ ''='' @ py_str val]
      in bind (subprocess_call w cmd) (\<lambda>command_output.
           if command_output \<noteq> 0 then ret False else ret True))"

definition activate :: "config \<Rightarrow> world \<Rightarrow> string \<Rightarrow> bool prog" where
  "activate cfg w code =
     bind (subprocess_call w [''supervisorctl'', ''stop'', ''nessusd'']) (\<lambda>_.
     bind (subprocess_call w [nessuscli, ''fetch'', ''--register'', code]) (\<lambda>nessus_activated.
       if nessus_activated \<noteq> 0 then ret False
       else
     bind (subprocess_call w [''supervisorctl'', ''start'', ''nessusd'']) (\<lambda>start.
       if start \<noteq> 0 then ret False
       else ret True)))"

definition cli_configure :: "config \<Rightarrow> world \<Rightarrow> bool prog" where
  "cli_configure cfg w =
     bind (nessus_config w (PStr ''ms_name'') (PStr (NAME cfg)) True) (\<lambda>_.
     bind (if AUTO_UPDATE cfg = ''all''
           then bind (nessus_config w (PStr ''auto_update'') (PBool True) False) (\<lambda>_. ret ())
           else ret ()) (\<lambda>_.
     bind (if AUTO_UPDATE cfg = ''plugins''
           then bind (nessus_config w (PStr ''auto_update_ui'') (PStr ''no'') False) (\<lambda>_.
                bind (nessus_config w (PStr ''auto_update'') (PBool True) False) (\<lambda>_. ret ()))
           else ret ()) (\<lambda>_.
     bind (if AUTO_UPDATE cfg = ''no''
           then bind (nessus_config w (PStr ''auto_update'') (PBool False) False) (\<lambda>_. ret ())
           else ret ()) (\<lambda>_.
     bind (if truthy (opt_val (LINKING_KEY cfg))
           then bind (nessus_config w (PStr ''disable_core_updates'')
                        (PStr (DISABLE_CORE_UPDATES cfg)) False) (\<lambda>_. ret ())
           else ret ()) (\<lambda>_.
     bind (subprocess_call w [''supervisorctl'', ''restart'', ''nessusd'']) (\<lambda>restarted.
     ret True))))))"

subsection \<open>The add-user dialogue\<close>

definition spawn :: "world \<Rightarrow> string \<Rightarrow> unit prog" where
  "spawn w cmd tr =
     (if spawn_ok w tr cmd then (Inr (), tr @ [Spawn cmd])
      else (Inl ExceptionPexpect, tr @ [Spawn cmd]))"

text \<open>
  \<^verbatim>\<open>child.expect(patterns)\<close> returns the index of the pattern matched and raises on a
  timeout or at the end of the child's output.
\<close>

definition expect :: "world \<Rightarrow> string list \<Rightarrow> nat prog" where
  "expect w ps tr =
     (case child_reply w tr ps of
        Matched k \<Rightarrow> (Inr k, tr @ [Expect ps (Matched k)])
      | Timeout \<Rightarrow> (Inl PexpectTIMEOUT, tr @ [Expect ps Timeout])
      | Eof \<Rightarrow> (Inl PexpectEOF, tr @ [Expect ps Eof]))"

definition sendline :: "world \<Rightarrow> string \<Rightarrow> unit prog" where
  "sendline w s tr =
     (if send_ok w tr s then (Inr (), tr @ [Sendline s])
      else (Inl OSError, tr @ [Sendline s]))"

definition kill :: "int \<Rightarrow> unit prog" where
  "kill sig tr = (Inr (), tr @ [Kill sig])"

text \<open>
  \<^verbatim>\<open>add_user\<close> from the second \<^verbatim>\<open>expect\<close> on (lines 137 to 165). When the index is neither
  0 nor 1 the function body ends and the call returns \<^verbatim>\<open>None\<close>.
\<close>

definition add_user_password :: "world \<Rightarrow> string \<Rightarrow> string \<Rightarrow> pyval prog" where
  "add_user_password w username password =
     bind (expect w [''Login password:'', ''already exists'']) (\<lambda>i.
       if i = 0 then
         bind (sendline w password) (\<lambda>_.
         bind (expect w [''Login password .*'']) (\<lambda>_.
         bind (sendline w password) (\<lambda>_.
         bind (expect w [''Do you want this user to be .*'']) (\<lambda>_.
         bind (sendline w ''y'') (\<lambda>_.
         bind (expect w [''the user can have an empty rules set'']) (\<lambda>_.
         bind (sendline w []) (\<lambda>_.
         bind (expect w [''Is that ok?'']) (\<lambda>_.
         bind (sendline w [CHR ''y'', CHR 0x0A]) (\<lambda>_.
         bind (expect w [''User added'']) (\<lambda>_.
         ret (PBool True)))))))))))
       else if i = 1 then
         bind (kill 0) (\<lambda>_. ret (PBool True))
       else ret PNone)"

definition add_user :: "config \<Rightarrow> world \<Rightarrow> pyval prog" where
  "add_user cfg w =
     (if (truthy (opt_val (ACTIVATION_CODE cfg)) \<or> truthy (opt_val (LINKING_KEY cfg)))
         \<and> USERNAME cfg = None \<and> PASSWORD cfg = None
      then ret (PBool False)
      else if (truthy (opt_val (ACTIVATION_CODE cfg)) \<or> truthy (opt_val (LINKING_KEY cfg)))
         \<and> USERNAME cfg \<noteq> None \<and> PASSWORD cfg = None
      then ret (PBool False)
      else
        (case USERNAME cfg of
           None \<Rightarrow> ret (PBool True)
         | Some username \<Rightarrow>
        (case PASSWORD cfg of
           None \<Rightarrow> ret (PBool True)
         | Some password \<Rightarrow>
             bind (spawn w (nessuscli @ '' adduser'')) (\<lambda>_.
             bind (expect w [''Login:'',
                    ''Your license does not allow you to create more than one user'']) (\<lambda>a.
               if a = 0 then
                 bind (sendline w username) (\<lambda>_. add_user_password w username password)
               else if a = 1 then ret (PBool True)
               else add_user_password w username password)))))"

subsection \<open>Linking to a manager\<close>

text \<open>What \<^verbatim>\<open>managed_link\<close> returns: a boolean, or the bytes the link command printed.\<close>

datatype link_value = LBool bool | LBytes string

fun link_truthy :: "link_value \<Rightarrow> bool" where
  "link_truthy (LBool b) = b"
| "link_truthy (LBytes b) = (b \<noteq> [])"

text \<open>\<^verbatim>\<open>sys.version_info < min_version\<close>: tuples compare lexicographically.\<close>

definition version_lt :: "nat \<times> nat \<Rightarrow> nat \<times> nat \<Rightarrow> bool" where
  "version_lt v m = (fst v < fst m \<or> (fst v = fst m \<and> snd v < snd m))"

definition link_args :: "config \<Rightarrow> pyval \<Rightarrow> string list" where
  "link_args cfg port =
     [nessuscli, ''managed'', ''link'',
      ''--key='' @ py_str (opt_val (LINKING_KEY cfg)),
      ''--name='' @ py_str (PStr (NAME cfg)),
      ''--host='' @ py_str (PStr (MANAGER_HOST cfg)),
      ''--port='' @ py_str port]"

definition proxy_args :: "config \<Rightarrow> string list" where
  "proxy_args cfg =
     [''--proxy-host='' @ py_str (opt_val (PROXY cfg)),
      ''--proxy-port='' @ py_str (opt_val (PROXY_PORT cfg)),
      ''--proxy-username='' @ py_str (opt_val (PROXY_USER cfg)),
      ''--proxy-password='' @ py_str (opt_val (PROXY_PASS cfg))]"

text \<open>
  \<^verbatim>\<open>subprocess.check_output(cmd)\<close> inside the \<^verbatim>\<open>try\<close> of \<^verbatim>\<open>managed_link\<close>: the result
  is the output, or \<open>None\<close> when \<^verbatim>\<open>CalledProcessError\<close> was raised and caught; any other
  exception leaves the function.
\<close>

definition check_output_caught :: "world \<Rightarrow> string list \<Rightarrow> string option prog" where
  "check_output_caught w cmd tr =
     (case check_output_result w tr cmd of
        Output b \<Rightarrow> (Inr (Some b), tr @ [Check_output cmd])
      | NonZeroExit \<Rightarrow> (Inr None, tr @ [Check_output cmd])
      | OutputRaises \<Rightarrow> (Inl OSError, tr @ [Check_output cmd]))"

definition managed_link :: "config \<Rightarrow> world \<Rightarrow> pyval \<Rightarrow> link_value prog" where
  "managed_link cfg w remote_port =
     (if version_lt (version_info w) (2, 7) then
        bind (if truthy (opt_val (PROXY cfg))
              then subprocess_call w (link_args cfg remote_port @ proxy_args cfg)
              else subprocess_call w (link_args cfg remote_port)) (\<lambda>linked.
          if linked = 0 then ret (LBool True) else ret (LBool False))
      else
        bind (if truthy (opt_val (PROXY cfg))
              then check_output_caught w (link_args cfg remote_port @ proxy_args cfg)
              else check_output_caught w (link_args cfg (PStr (MANAGER_PORT cfg)))) (\<lambda>r.
          case r of
            None \<Rightarrow> ret (LBool False)
          | Some linked \<Rightarrow>
              if linked \<noteq> [] then
                (case decode_utf8 w linked of
                   None \<Rightarrow> raise UnicodeDecodeError
                 | Some text \<Rightarrow>
                     if contains ''Failed'' text then ret (LBool False)
                     else ret (LBytes linked))
              else ret (LBool False)))"

text \<open>
  The \<^verbatim>\<open>while not linked\<close> loop of \<^verbatim>\<open>configure_managed_scanner\<close>. The argument of the
  call in its body is the name \<^verbatim>\<open>remote_port\<close>, which the function does not bind: it is
  looked up among the module-level names. A loop that never ends has the value \<open>None\<close>.
\<close>

partial_function (option) retry_link ::
    "config \<Rightarrow> world \<Rightarrow> link_value \<Rightarrow> trace \<Rightarrow> ((error + link_value) \<times> trace) option" where
  "retry_link cfg w linked tr =
     (if \<not> link_truthy linked then
        (case py_int w (RETRY_ON_FAIL_SLEEP cfg) tr of
           (Inl e, tr1) \<Rightarrow> Some (Inl e, tr1)
         | (Inr secs, tr1) \<Rightarrow>
        (case sleep secs tr1 of
           (Inl e, tr2) \<Rightarrow> Some (Inl e, tr2)
         | (Inr _, tr2) \<Rightarrow>
        (case map_of (module_globals cfg) ''remote_port'' of
           None \<Rightarrow> Some (Inl (NameError ''remote_port''), tr2)
         | Some remote_port \<Rightarrow>
        (case managed_link cfg w remote_port tr2 of
           (Inl e, tr3) \<Rightarrow> Some (Inl e, tr3)
         | (Inr linked', tr3) \<Rightarrow> retry_link cfg w linked' tr3))))
      else Some (Inr linked, tr))"

declare retry_link.simps [code]

definition configure_managed_scanner ::
    "config \<Rightarrow> world \<Rightarrow> trace \<Rightarrow> ((error + bool) \<times> trace) option" where
  "configure_managed_scanner cfg w tr =
     (case subprocess_call w [nessuscli, ''fix'', ''--secure'', ''--set'', ''managed=managed''] tr of
        (Inl e, tr1) \<Rightarrow> Some (Inl e, tr1)
      | (Inr _, tr1) \<Rightarrow>
     (case managed_link cfg w (PStr (MANAGER_PORT cfg)) tr1 of
        (Inl e, tr2) \<Rightarrow> Some (Inl e, tr2)
      | (Inr linked, tr2) \<Rightarrow>
     (case (if \<not> link_truthy linked then
              (if truthy (RETRY_ON_FAIL cfg) then retry_link cfg w linked tr2
               else Some (Inr linked, tr2))
            else Some (Inr linked, tr2)) of
        None \<Rightarrow> None
      | Some (Inl e, tr3) \<Rightarrow> Some (Inl e, tr3)
      | Some (Inr linked', tr3) \<Rightarrow>
          if link_truthy linked' then Some (Inr True, tr3) else Some (Inr False, tr3))))"

subsection \<open>The main block\<close>

text \<open>
  The last \<^verbatim>\<open>if\<close> of the main block (lines 346 to 355); when the linking key is empty
  or unset the script reaches its last line.
\<close>

definition main_link :: "config \<Rightarrow> world \<Rightarrow> trace \<Rightarrow> ((error + int) \<times> trace) option" where
  "main_link cfg w tr =
     (if truthy (opt_val (LINKING_KEY cfg)) then
        (case configure_managed_scanner cfg w tr of
           None \<Rightarrow> None
         | Some (Inl e, tr1) \<Rightarrow> Some (Inl e, tr1)
         | Some (Inr configured, tr1) \<Rightarrow>
             if configured then Some (Inr 0, tr1) else Some (Inr 3, tr1))
      else Some (Inr 0, tr))"

text \<open>
  The block under \<^verbatim>\<open>if __name__ == "__main__"\<close>, started with an empty trace. The result
  is \<open>Inr n\<close> when the script ends with \<^verbatim>\<open>sys.exit(n)\<close> (or reaches its last line,
  \<open>n = 0\<close>), \<open>Inl e\<close> when the exception \<open>e\<close> is never caught, and \<open>None\<close> when the
  script never ends.
\<close>

definition main :: "config \<Rightarrow> world \<Rightarrow> ((error + int) \<times> trace) option" where
  "main cfg w =
     (case wait_for_global_db cfg w [] of
        (Inl e, tr1) \<Rightarrow> Some (Inl e, tr1)
      | (Inr gdb_created, tr1) \<Rightarrow>
          if \<not> gdb_created then Some (Inr 3, tr1)
          else
     (case add_user cfg w tr1 of
        (Inl e, tr2) \<Rightarrow> Some (Inl e, tr2)
      | (Inr user_added, tr2) \<Rightarrow>
          if \<not> truthy user_added then Some (Inr 3, tr2)
          else
     (case cli_configure cfg w tr2 of
        (Inl e, tr3) \<Rightarrow> Some (Inl e, tr3)
      | (Inr cli_configured, tr3) \<Rightarrow>
          if \<not> cli_configured then Some (Inr 3, tr3)
          else if \<not> truthy (opt_val (ACTIVATION_CODE cfg))
                  \<and> \<not> truthy (opt_val (LINKING_KEY cfg)) then Some (Inr 0, tr3)
          else if truthy (opt_val (ACTIVATION_CODE cfg)) then
            (case activate cfg w (py_str (opt_val (ACTIVATION_CODE cfg))) tr3 of
               (Inl e, tr4) \<Rightarrow> Some (Inl e, tr4)
             | (Inr activated, tr4) \<Rightarrow> Some (Inr 0, tr4))
          else main_link cfg w tr3)))"

text \<open>
  The exit status of the process: the argument of \<^verbatim>\<open>sys.exit\<close>, and 1 when an uncaught
  exception ends the interpreter.
\<close>

definition exit_status :: "config \<Rightarrow> world \<Rightarrow> int option" where
  "exit_status cfg w =
     (case main cfg w of
        None \<Rightarrow> None
      | Some (Inl e, tr) \<Rightarrow> Some 1
      | Some (Inr n, tr) \<Rightarrow> Some n)"

section \<open>Observations on traces and concrete runs\<close>



text \<open>
  The configuration of a host named \<^verbatim>\<open>scanner\<close> with an empty environment, and a world
  on Python 3.8 in which the database file never appears, every command exits with 0,
  the link command exits with a non-zero status and the child never prompts. Its
  \<^verbatim>\<open>int\<close> reads a sign and decimal digits, its decoder reads ASCII: the strings and
  outputs of the runs below need no more.
\<close>

definition default_config :: config where
  "default_config = load_config ''scanner'' Map.empty"

definition digit_of :: "char \<Rightarrow> nat option" where
  "digit_of c =
     (let n = (of_char c :: nat) in if 48 \<le> n \<and> n \<le> 57 then Some (n - 48) else None)"

fun digits :: "nat \<Rightarrow> string \<Rightarrow> nat option" where
  "digits acc [] = Some acc"
| "digits acc (c # cs) =
     (case digit_of c of None \<Rightarrow> None | Some d \<Rightarrow> digits (10 * acc + d) cs)"

definition decimal :: "string \<Rightarrow> int option" where
  "decimal s =
     (case s of
        [] \<Rightarrow> None
      | c # cs \<Rightarrow>
          if c = CHR ''-'' then (if cs = [] then None else map_option (\<lambda>n. - int n) (digits 0 cs))
          else if c = CHR ''+'' then (if cs = [] then None else map_option int (digits 0 cs))
          else map_option int (digits 0 (c # cs)))"

definition decode_ascii :: "string \<Rightarrow> string option" where
  "decode_ascii b = (if list_all (\<lambda>c. of_char c < (128::nat)) b then Some b else None)"

definition quiet_world :: world where
  "quiet_world =
     \<lparr> version_info = (3, 8),
       int_of_str = decimal,
       decode_utf8 = decode_ascii,
       path_exists = (\<lambda>tr p. False),
       path_size = (\<lambda>tr p. None),
       call_status = (\<lambda>tr cmd. Returned 0),
       check_output_result = (\<lambda>tr cmd. NonZeroExit),
       spawn_ok = (\<lambda>tr cmd. True),
       send_ok = (\<lambda>tr s. True),
       child_reply = (\<lambda>tr ps. Timeout) \<rparr>"

text \<open>
  The prompts the dialogue answers: the patterns waited for, the index matched and the
  response sent. Where \<^verbatim>\<open>add_user\<close> waits for a single pattern it does not look at
  the index. \<open>prompted cfg prev tr\<close>: in the trace \<open>tr\<close>, which follows the event
  \<open>prev\<close>, every line sent comes immediately after a successful \<^verbatim>\<open>expect\<close> of the
  prompt it answers.
\<close>

definition answers :: "config \<Rightarrow> string list \<Rightarrow> nat \<Rightarrow> string \<Rightarrow> bool" where
  "answers cfg ps k s =
     ((ps = [''Login:'', ''Your license does not allow you to create more than one user'']
         \<and> k = 0 \<and> USERNAME cfg = Some s)
    \<or> (ps = [''Login password:'', ''already exists''] \<and> k = 0 \<and> PASSWORD cfg = Some s)
    \<or> (ps = [''Login password .*''] \<and> PASSWORD cfg = Some s)
    \<or> (ps = [''Do you want this user to be .*''] \<and> s = ''y'')
    \<or> (ps = [''the user can have an empty rules set''] \<and> s = [])
    \<or> (ps = [''Is that ok?''] \<and> s = [CHR ''y'', CHR 0x0A]))"

fun prompted :: "config \<Rightarrow> event option \<Rightarrow> trace \<Rightarrow> bool" where
  "prompted cfg prev [] = True"
| "prompted cfg prev (Sendline s # tr) =
     ((case prev of Some (Expect ps (Matched k)) \<Rightarrow> answers cfg ps k s | _ \<Rightarrow> False)
      \<and> prompted cfg (Some (Sendline s)) tr)"
| "prompted cfg prev (e # tr) = prompted cfg (Some e) tr"

text \<open>
  \<open>tail_ok cfg K\<close>: the computation \<open>K\<close> only extends the trace, and what it appends is
  prompted whatever came before.
\<close>

definition tail_ok :: "config \<Rightarrow> 'a prog \<Rightarrow> bool" where
  "tail_ok cfg K = (\<forall>tr prev. \<exists>tr'. snd (K tr) = tr @ tr' \<and> prompted cfg prev tr')"

text \<open>The number of link commands a trace runs through \<^verbatim>\<open>check_output\<close>.\<close>

fun link_attempts :: "trace \<Rightarrow> nat" where
  "link_attempts [] = 0"
| "link_attempts (Check_output cmd # tr) = Suc (link_attempts tr)"
| "link_attempts (e # tr) = link_attempts tr"

text \<open>
  More worlds: one in which the database file is there at once; one in which, besides,
  the link command fails twice and then prints \<^verbatim>\<open>Linked\<close>; one in which it prints
  \<^verbatim>\<open>Linked\<close> at once; one in which the child reports the license limit; one in which
  the child gives every prompt the dialogue waits for; one in which the registration
  command exits with 1; one in which every command exits with 1.
\<close>

definition ready_world :: world where
  "ready_world = quiet_world\<lparr> path_exists := (\<lambda>tr p. True), path_size := (\<lambda>tr p. Some 4096) \<rparr>"

definition flaky_world :: world where
  "flaky_world = ready_world\<lparr> check_output_result :=
      (\<lambda>tr cmd. if link_attempts tr < 2 then NonZeroExit else Output ''Linked'') \<rparr>"

definition linking_world :: world where
  "linking_world = ready_world\<lparr> check_output_result := (\<lambda>tr cmd. Output ''Linked'') \<rparr>"

definition licensed_world :: world where
  "licensed_world = ready_world\<lparr> child_reply := (\<lambda>tr ps. Matched 1) \<rparr>"

definition dialogue_world :: world where
  "dialogue_world = ready_world\<lparr> child_reply := (\<lambda>tr ps. Matched 0) \<rparr>"

definition unregistered_world :: world where
  "unregistered_world = licensed_world\<lparr> call_status :=
      (\<lambda>tr cmd. if cmd = [nessuscli, ''fetch'', ''--register'', ''CODE'']
                  then Returned 1 else Returned 0) \<rparr>"

definition failing_settings_world :: world where
  "failing_settings_world = ready_world\<lparr> call_status := (\<lambda>tr cmd. Returned 1) \<rparr>"

text \<open>
  More configurations: with a user name and a password; with a linking key besides;
  with retrying switched on and a delay of one second besides; with an activation code.
\<close>

definition admin_config :: config where
  "admin_config = default_config\<lparr> USERNAME := Some ''admin'', PASSWORD := Some ''secret'' \<rparr>"

definition linked_config :: config where
  "linked_config = admin_config\<lparr> LINKING_KEY := Some ''KEY'' \<rparr>"

definition retry_config :: config where
  "retry_config = linked_config\<lparr> RETRY_ON_FAIL := PStr ''1'', RETRY_ON_FAIL_SLEEP := PStr ''1'' \<rparr>"

definition activation_config :: config where
  "activation_config = admin_config\<lparr> ACTIVATION_CODE := Some ''CODE'' \<rparr>"

text \<open>
  Traces of the concrete runs: after the database file was found; after the child then
  reported the license limit; after the settings were then applied with the defaults.
\<close>

definition ready_trace :: trace where
  "ready_trace = [Exists global_db, Getsize global_db]"

definition licensed_trace :: trace where
  "licensed_trace = ready_trace @
     [Spawn ''/opt/nessus/sbin/nessuscli adduser'',
      Expect [''Login:'', ''Your license does not allow you to create more than one user'']
        (Matched 1)]"

definition settings_trace :: trace where
  "settings_trace = licensed_trace @
     [Call [''/opt/nessus/sbin/nessuscli'', ''fix'', ''--set'', ''--secure'', ''ms_name=scanner''],
      Call [''/opt/nessus/sbin/nessuscli'', ''fix'', ''--set'', ''auto_update=True''],
      Call [''supervisorctl'', ''restart'', ''nessusd'']]"

section \<open>Properties\<close>

subsection \<open>Concrete runs\<close>

lemma default_config_fields:
  "default_config =
     \<lparr> GLOBAL_DB_TIMEOUT = PInt 120, ACTIVATION_CODE = None, NAME = ''scanner'',
       USERNAME = None, PASSWORD = None, AUTO_UPDATE = ''all'', DISABLE_CORE_UPDATES = ''no'',
       LINKING_KEY = None, MANAGER_HOST = ''cloud.tenable.com'', MANAGER_PORT = ''443'',
       SELF_HOST = ''scanner'', SELF_PORT = ''8834'', RETRY_ON_FAIL = PBool False,
       RETRY_ON_FAIL_SLEEP = PInt 30, PROXY = None, PROXY_PORT = None, PROXY_USER = None,
       PROXY_PASS = None \<rparr>"
  by (simp add: default_config_def load_config_def getenv_def getenv_str_def Let_def)

lemma poll_ready:
  assumes "0 < n" and "path_exists w tr global_db"
    and "case path_size w (tr @ [Exists global_db]) global_db of None \<Rightarrow> False | Some sz \<Rightarrow> 0 < sz"
  shows "poll_global_db w n tr = (Inr True, tr @ [Exists global_db, Getsize global_db])"
  using assms
  by (cases n) (auto simp: path_exists_io_def path_getsize_def split: option.splits)

lemma wait_ready:
  assumes "case GLOBAL_DB_TIMEOUT cfg of PInt t \<Rightarrow> 0 < t | _ \<Rightarrow> False"
    and "path_exists w [] global_db"
    and "case path_size w [Exists global_db] global_db of None \<Rightarrow> False | Some sz \<Rightarrow> 0 < sz"
  shows "wait_for_global_db cfg w [] = (Inr True, [Exists global_db, Getsize global_db])"
  using assms poll_ready [of "nat t" w "[]" for t]
  by (auto simp: wait_for_global_db_def py_int_def bind_def ret_def split: pyval.splits)

lemmas world_defs = decode_ascii_def digit_of_def unregistered_world_def licensed_world_def dialogue_world_def
  failing_settings_world_def linking_world_def flaky_world_def ready_world_def quiet_world_def

lemmas config_defs = activation_config_def retry_config_def linked_config_def admin_config_def
  default_config_fields

lemmas trace_defs = ready_trace_def licensed_trace_def settings_trace_def

lemmas run_defs = bind_def ret_def raise_def subprocess_call_def nessus_config_def
  cli_configure_def add_user_def add_user_password_def spawn_def expect_def sendline_def kill_def
  activate_def nessuscli_def

lemmas link_defs = configure_managed_scanner_def managed_link_def check_output_caught_def
  link_args_def proxy_args_def version_lt_def main_link_def

subsection \<open>Waiting for the database\<close>






subsection \<open>The add-user dialogue\<close>

lemma tail_okD:
  "tail_ok cfg K \<Longrightarrow> \<exists>tr'. snd (K tr) = tr @ tr' \<and> prompted cfg prev tr'"
  by (simp add: tail_ok_def)

lemma tail_ok_ret: "tail_ok cfg (ret x)"
  by (simp add: tail_ok_def ret_def)

lemma tail_ok_expect:
  assumes "\<And>k. tail_ok cfg (K k)"
  shows "tail_ok cfg (bind (expect w ps) K)"
  unfolding tail_ok_def
proof (intro allI)
  fix tr prev
  show "\<exists>tr'. snd (bind (expect w ps) K tr) = tr @ tr' \<and> prompted cfg prev tr'"
  proof (cases "child_reply w tr ps")
    case (Matched k)
    from tail_okD [OF assms, of k "tr @ [Expect ps (Matched k)]" "Some (Expect ps (Matched k))"]
    obtain tr' where "snd (K k (tr @ [Expect ps (Matched k)])) = (tr @ [Expect ps (Matched k)]) @ tr'"
      "prompted cfg (Some (Expect ps (Matched k))) tr'" by blast
    with Matched show ?thesis by (simp add: bind_def expect_def)
  next
    case Timeout
    then show ?thesis by (simp add: bind_def expect_def)
  next
    case Eof
    then show ?thesis by (simp add: bind_def expect_def)
  qed
qed

lemma tail_ok_expect_send:
  assumes K: "tail_ok cfg K" and ans: "\<And>k. answers cfg ps k s"
  shows "tail_ok cfg (bind (expect w ps) (\<lambda>i. bind (sendline w s) (\<lambda>_. K)))"
  unfolding tail_ok_def
proof (intro allI)
  fix tr prev
  let ?m = "bind (expect w ps) (\<lambda>i. bind (sendline w s) (\<lambda>_. K))"
  show "\<exists>tr'. snd (?m tr) = tr @ tr' \<and> prompted cfg prev tr'"
  proof (cases "child_reply w tr ps")
    case (Matched k)
    from tail_okD [OF K, of "tr @ [Expect ps (Matched k), Sendline s]" "Some (Sendline s)"]
    obtain tr' where "snd (K (tr @ [Expect ps (Matched k), Sendline s]))
          = (tr @ [Expect ps (Matched k), Sendline s]) @ tr'"
      "prompted cfg (Some (Sendline s)) tr'" by blast
    with Matched ans [of k] show ?thesis by (simp add: bind_def expect_def sendline_def)
  next
    case Timeout
    then show ?thesis by (simp add: bind_def expect_def)
  next
    case Eof
    then show ?thesis by (simp add: bind_def expect_def)
  qed
qed

lemma tail_ok_expect_send0:
  assumes K: "tail_ok cfg K" and K': "\<And>k. tail_ok cfg (K' k)" and ans: "answers cfg ps 0 s"
  shows "tail_ok cfg (bind (expect w ps)
           (\<lambda>i. if i = 0 then bind (sendline w s) (\<lambda>_. K) else K' i))"
  unfolding tail_ok_def
proof (intro allI)
  fix tr prev
  let ?m = "bind (expect w ps) (\<lambda>i. if i = 0 then bind (sendline w s) (\<lambda>_. K) else K' i)"
  show "\<exists>tr'. snd (?m tr) = tr @ tr' \<and> prompted cfg prev tr'"
  proof (cases "child_reply w tr ps")
    case (Matched k)
    show ?thesis
    proof (cases "k = 0")
      case True
      from tail_okD [OF K, of "tr @ [Expect ps (Matched 0), Sendline s]" "Some (Sendline s)"]
      obtain tr' where "snd (K (tr @ [Expect ps (Matched 0), Sendline s]))
            = (tr @ [Expect ps (Matched 0), Sendline s]) @ tr'"
        "prompted cfg (Some (Sendline s)) tr'" by blast
      with Matched True ans show ?thesis by (simp add: bind_def expect_def sendline_def)
    next
      case False
      from tail_okD [OF K', of k "tr @ [Expect ps (Matched k)]" "Some (Expect ps (Matched k))"]
      obtain tr' where "snd (K' k (tr @ [Expect ps (Matched k)])) = (tr @ [Expect ps (Matched k)]) @ tr'"
        "prompted cfg (Some (Expect ps (Matched k))) tr'" by blast
      with Matched False show ?thesis by (simp add: bind_def expect_def)
    qed
  next
    case Timeout
    then show ?thesis by (simp add: bind_def expect_def)
  next
    case Eof
    then show ?thesis by (simp add: bind_def expect_def)
  qed
qed

lemma tail_ok_kill: "tail_ok cfg (bind (kill n) (\<lambda>_. ret x))"
  by (simp add: tail_ok_def bind_def kill_def ret_def)

lemma tail_ok_spawn:
  assumes K: "tail_ok cfg K"
  shows "tail_ok cfg (bind (spawn w c) (\<lambda>_. K))"
  unfolding tail_ok_def
proof (intro allI)
  fix tr prev
  from tail_okD [OF K, of "tr @ [Spawn c]" "Some (Spawn c)"]
  obtain tr' where "snd (K (tr @ [Spawn c])) = (tr @ [Spawn c]) @ tr'"
    "prompted cfg (Some (Spawn c)) tr'" by blast
  then show "\<exists>tr'. snd (bind (spawn w c) (\<lambda>_. K) tr) = tr @ tr' \<and> prompted cfg prev tr'"
    by (simp add: bind_def spawn_def)
qed

lemma tail_ok_if: "tail_ok cfg A \<Longrightarrow> tail_ok cfg B \<Longrightarrow> tail_ok cfg (if c then A else B)"
  by simp

lemma add_user_password_ok:
  assumes "PASSWORD cfg = Some password"
  shows "tail_ok cfg (add_user_password w username password)"
  unfolding add_user_password_def
  by (intro tail_ok_expect_send0 tail_ok_expect_send tail_ok_expect tail_ok_ret tail_ok_if
        tail_ok_kill)
     (simp_all add: answers_def assms)

text \<open>
  Claim C8. Whatever the child answers, \<^verbatim>\<open>add_user\<close> only appends to the trace, and in
  what it appends every \<^verbatim>\<open>sendline\<close> comes immediately after a successful \<^verbatim>\<open>expect\<close>
  of the prompt that the line answers.
\<close>

theorem sends_follow_prompts:
  "\<exists>tr'. snd (add_user cfg w tr) = tr @ tr' \<and> prompted cfg None tr'"
proof -
  have "tail_ok cfg (add_user cfg w)"
    unfolding add_user_def
    by (auto intro!: tail_ok_if tail_ok_ret tail_ok_spawn tail_ok_expect_send0 add_user_password_ok
          simp: answers_def split: option.splits)
  then show ?thesis by (rule tail_okD)
qed

text \<open>
  A complete dialogue, and a trace in which a line is sent without a prompt: the
  predicate rejects it.
\<close>

theorem sends_follow_prompts_witness:
  "snd (add_user admin_config dialogue_world []) =
     [Spawn ''/opt/nessus/sbin/nessuscli adduser'',
      Expect [''Login:'', ''Your license does not allow you to create more than one user'']
        (Matched 0),
      Sendline ''admin'',
      Expect [''Login password:'', ''already exists''] (Matched 0),
      Sendline ''secret'',
      Expect [''Login password .*''] (Matched 0),
      Sendline ''secret'',
      Expect [''Do you want this user to be .*''] (Matched 0),
      Sendline ''y'',
      Expect [''the user can have an empty rules set''] (Matched 0),
      Sendline [],
      Expect [''Is that ok?''] (Matched 0),
      Sendline [CHR ''y'', CHR 0x0A],
      Expect [''User added''] (Matched 0)]
   \<and> \<not> prompted admin_config None [Spawn ''/opt/nessus/sbin/nessuscli adduser'', Sendline ''admin'']"
  using sends_follow_prompts [of admin_config dialogue_world "[]"]
  by (simp add: config_defs world_defs run_defs)

subsection \<open>Credentials\<close>

text \<open>
  Claim C4, as amended. When both the user name and the password are unset, \<^verbatim>\<open>add_user\<close>
  spawns nothing (the trace is unchanged); it reports success when neither an
  activation code nor a linking key is present (unset or empty) and failure when one is.
\<close>

theorem add_user_both_unset:
  assumes "USERNAME cfg = None" and "PASSWORD cfg = None"
  shows "add_user cfg w tr =
     (Inr (PBool (\<not> (truthy (opt_val (ACTIVATION_CODE cfg))
                       \<or> truthy (opt_val (LINKING_KEY cfg))))), tr)"
  using assms by (simp add: add_user_def ret_def)

theorem add_user_both_unset_witness:
  "add_user default_config ready_world [] = (Inr (PBool True), [])"
  using add_user_both_unset [of default_config ready_world "[]"]
  by (simp add: default_config_fields)

text \<open>
  With an activation code and no credentials \<^verbatim>\<open>add_user\<close> reports failure, so the claim
  as stated ("regardless of whether an activation code or linking key is present") fails.
\<close>

theorem add_user_both_unset_counterexample:
  "USERNAME (default_config\<lparr>ACTIVATION_CODE := Some ''CODE''\<rparr>) = None
   \<and> PASSWORD (default_config\<lparr>ACTIVATION_CODE := Some ''CODE''\<rparr>) = None
   \<and> add_user (default_config\<lparr>ACTIVATION_CODE := Some ''CODE''\<rparr>) ready_world []
       = (Inr (PBool False), [])"
  by (simp add: default_config_fields add_user_def ret_def)

text \<open>
  Claim C3, as amended. With a user name, no password and an activation code or a linking
  key, \<^verbatim>\<open>add_user\<close> reports failure without spawning anything, and the script, once the
  wait for the database has returned, ends with exit status 3. With exactly one of user
  name and password set and neither an activation code nor a linking key, \<^verbatim>\<open>add_user\<close>
  skips the creation and reports success, again without spawning anything.
\<close>

theorem credentials_mismatch:
  "(USERNAME cfg \<noteq> None \<and> PASSWORD cfg = None
      \<and> (truthy (opt_val (ACTIVATION_CODE cfg)) \<or> truthy (opt_val (LINKING_KEY cfg)))
     \<longrightarrow> add_user cfg w tr = (Inr (PBool False), tr)
        \<and> (wait_for_global_db cfg w [] = (Inr g, tr1)
              \<longrightarrow> main cfg w = Some (Inr 3, tr1) \<and> exit_status cfg w = Some 3))
   \<and> ((USERNAME cfg = None) \<noteq> (PASSWORD cfg = None)
      \<and> \<not> truthy (opt_val (ACTIVATION_CODE cfg)) \<and> \<not> truthy (opt_val (LINKING_KEY cfg))
     \<longrightarrow> add_user cfg w tr = (Inr (PBool True), tr))"
proof (intro conjI impI)
  assume a: "USERNAME cfg \<noteq> None \<and> PASSWORD cfg = None
      \<and> (truthy (opt_val (ACTIVATION_CODE cfg)) \<or> truthy (opt_val (LINKING_KEY cfg)))"
  then show "add_user cfg w tr = (Inr (PBool False), tr)"
    by (simp add: add_user_def ret_def)
  assume "wait_for_global_db cfg w [] = (Inr g, tr1)"
  moreover from a have "add_user cfg w tr1 = (Inr (PBool False), tr1)"
    by (simp add: add_user_def ret_def)
  ultimately show "main cfg w = Some (Inr 3, tr1)"
    by (simp add: main_def)
  then show "exit_status cfg w = Some 3"
    by (simp add: exit_status_def)
next
  assume "(USERNAME cfg = None) \<noteq> (PASSWORD cfg = None)
      \<and> \<not> truthy (opt_val (ACTIVATION_CODE cfg)) \<and> \<not> truthy (opt_val (LINKING_KEY cfg))"
  then show "add_user cfg w tr = (Inr (PBool True), tr)"
    by (auto simp: add_user_def ret_def split: option.splits)
qed

theorem credentials_mismatch_witness:
  "main (default_config\<lparr>USERNAME := Some ''admin'', LINKING_KEY := Some ''KEY''\<rparr>) ready_world
     = Some (Inr 3, [Exists global_db, Getsize global_db])
   \<and> add_user (default_config\<lparr>PASSWORD := Some ''secret''\<rparr>) ready_world []
     = (Inr (PBool True), [])"
  using credentials_mismatch
          [of "default_config\<lparr>USERNAME := Some ''admin'', LINKING_KEY := Some ''KEY''\<rparr>"
              ready_world "[]" True "[Exists global_db, Getsize global_db]"]
        credentials_mismatch [of "default_config\<lparr>PASSWORD := Some ''secret''\<rparr>" ready_world "[]"]
  by (simp add: default_config_fields ready_world_def quiet_world_def wait_ready)

text \<open>
  A user name without a password, and neither activation code nor linking key: the run
  does not abort, it ends with exit status 0.
\<close>

theorem credentials_mismatch_counterexample:
  "USERNAME (default_config\<lparr>USERNAME := Some ''admin''\<rparr>) = Some ''admin''
   \<and> PASSWORD (default_config\<lparr>USERNAME := Some ''admin''\<rparr>) = None
   \<and> add_user (default_config\<lparr>USERNAME := Some ''admin''\<rparr>) ready_world
        [Exists global_db, Getsize global_db]
       = (Inr (PBool True), [Exists global_db, Getsize global_db])
   \<and> exit_status (default_config\<lparr>USERNAME := Some ''admin''\<rparr>) ready_world = Some 0"
  by (simp add: default_config_fields ready_world_def quiet_world_def wait_ready
        bind_def ret_def add_user_def exit_status_def main_def cli_configure_def
        nessus_config_def subprocess_call_def)

subsection \<open>Linking to a manager\<close>

lemma remote_port_unbound: "map_of (module_globals cfg) ''remote_port'' = None"
  by (simp add: module_globals_def)

lemma py_int_trace: "py_int w x tr = (r, tr') \<Longrightarrow> tr' = tr"
  by (auto simp: py_int_def ret_def raise_def split: pyval.splits option.splits)

lemma retry_link_unfold:
  "\<not> link_truthy linked \<Longrightarrow>
   retry_link cfg w linked tr =
     (case py_int w (RETRY_ON_FAIL_SLEEP cfg) tr of
        (Inl e, tr1) \<Rightarrow> Some (Inl e, tr1)
      | (Inr secs, tr1) \<Rightarrow>
          if secs < 0 then Some (Inl ValueError, tr1)
          else Some (Inl (NameError ''remote_port''), tr1 @ [Sleep secs]))"
  by (subst retry_link.simps) (simp add: remote_port_unbound sleep_def split: prod.splits sum.splits)

lemma link_attempts_append: "link_attempts (xs @ ys) = link_attempts xs + link_attempts ys"
  by (induction xs rule: link_attempts.induct) simp_all

lemma retry_never_relinks:
  assumes "\<not> link_truthy linked"
  shows "\<exists>e tr'. retry_link cfg w linked tr = Some (Inl e, tr')
           \<and> link_attempts tr' = link_attempts tr"
proof (cases "py_int w (RETRY_ON_FAIL_SLEEP cfg) tr")
  case (Pair r tr1)
  then have "tr1 = tr" by (rule py_int_trace)
  with Pair assms show ?thesis
    by (cases r) (simp_all add: retry_link_unfold link_attempts_append)
qed

text \<open>
  Claim C1. With retrying switched on, a delay of one second and a link command that
  fails twice before it succeeds, \<^verbatim>\<open>configure_managed_scanner\<close> makes one link attempt,
  sleeps once and then raises \<^verbatim>\<open>NameError\<close>: the name \<^verbatim>\<open>remote_port\<close> in the loop body
  is bound nowhere. It neither makes a second attempt nor reports success.
\<close>

theorem retry_raises_name_error:
  "configure_managed_scanner retry_config flaky_world [] =
     Some (Inl (NameError ''remote_port''),
       [Call [''/opt/nessus/sbin/nessuscli'', ''fix'', ''--secure'', ''--set'', ''managed=managed''],
        Check_output [''/opt/nessus/sbin/nessuscli'', ''managed'', ''link'', ''--key=KEY'',
          ''--name=scanner'', ''--host=cloud.tenable.com'', ''--port=443''],
        Sleep 1])"
  by (simp add: configure_managed_scanner_def retry_config_def linked_config_def admin_config_def
        flaky_world_def ready_world_def
        quiet_world_def decode_ascii_def default_config_fields subprocess_call_def managed_link_def version_lt_def
        bind_def ret_def check_output_caught_def link_args_def nessuscli_def retry_link_unfold
        py_int_def decimal_def digit_of_def)

lemma no_proxy_port_ignored:
  assumes "\<not> version_lt (version_info w) (2, 7)" and "\<not> truthy (opt_val (PROXY cfg))"
  shows "managed_link cfg w remote_port tr = managed_link cfg w (PStr (MANAGER_PORT cfg)) tr"
  using assms by (simp add: managed_link_def)

text \<open>
  Claim C2. Called with port 8443 on Python 3.8 without a proxy, \<^verbatim>\<open>managed_link\<close> runs
  the link command with \<^verbatim>\<open>--port=443\<close>, the module-level \<^verbatim>\<open>MANAGER_PORT\<close>, not with the
  port of the call.
\<close>

theorem no_proxy_link_ignores_port:
  "managed_link linked_config linking_world (PStr ''8443'') [] =
     (Inr (LBytes ''Linked''),
      [Check_output [''/opt/nessus/sbin/nessuscli'', ''managed'', ''link'', ''--key=KEY'',
          ''--name=scanner'', ''--host=cloud.tenable.com'', ''--port=443'']])"
  by (simp add: linking_world_def ready_world_def linked_config_def admin_config_def
        quiet_world_def decode_ascii_def default_config_fields managed_link_def version_lt_def
        bind_def ret_def check_output_caught_def link_args_def nessuscli_def)




text \<open>
  Claim C10. After a first link attempt that failed, \<^verbatim>\<open>configure_managed_scanner\<close> enters
  the retry loop exactly when the environment sets \<^verbatim>\<open>RETRY_ON_FAIL\<close> to a non-empty
  string, whatever the string says; with the variable unset or empty it returns
  \<^verbatim>\<open>False\<close> at once.
\<close>

theorem retry_flag_nonempty:
  assumes "subprocess_call w [nessuscli, ''fix'', ''--secure'', ''--set'', ''managed=managed''] tr
             = (Inr rc, tr1)"
    and "managed_link (load_config h env) w (PStr (MANAGER_PORT (load_config h env))) tr1
             = (Inr linked, tr2)"
    and "\<not> link_truthy linked"
  shows "truthy (RETRY_ON_FAIL (load_config h env))
           = (\<exists>s. env ''RETRY_ON_FAIL'' = Some s \<and> s \<noteq> [])
       \<and> configure_managed_scanner (load_config h env) w tr =
           (if \<exists>s. env ''RETRY_ON_FAIL'' = Some s \<and> s \<noteq> []
            then (case retry_link (load_config h env) w linked tr2 of
                    None \<Rightarrow> None
                  | Some (Inl e, tr3) \<Rightarrow> Some (Inl e, tr3)
                  | Some (Inr linked', tr3) \<Rightarrow> Some (Inr (link_truthy linked'), tr3))
            else Some (Inr False, tr2))"
proof -
  have flag: "truthy (RETRY_ON_FAIL (load_config h env))
           = (\<exists>s. env ''RETRY_ON_FAIL'' = Some s \<and> s \<noteq> [])"
    by (simp add: load_config_def getenv_def Let_def split: option.splits)
  show ?thesis
    unfolding flag [symmetric]
    using assms
    by (auto simp: configure_managed_scanner_def split: option.splits prod.splits sum.splits)
qed

text \<open>
  With \<^verbatim>\<open>RETRY_ON_FAIL=false\<close> the loop is entered (it sleeps the default 30 seconds);
  with the variable set to the empty string it is not.
\<close>

theorem retry_flag_nonempty_witness:
  "configure_managed_scanner
      (load_config ''scanner'' [''LINKING_KEY'' \<mapsto> ''KEY'', ''RETRY_ON_FAIL'' \<mapsto> ''false''])
      ready_world [] =
     Some (Inl (NameError ''remote_port''),
       [Call [''/opt/nessus/sbin/nessuscli'', ''fix'', ''--secure'', ''--set'', ''managed=managed''],
        Check_output [''/opt/nessus/sbin/nessuscli'', ''managed'', ''link'', ''--key=KEY'',
          ''--name=scanner'', ''--host=cloud.tenable.com'', ''--port=443''],
        Sleep 30])
   \<and> configure_managed_scanner
      (load_config ''scanner'' [''LINKING_KEY'' \<mapsto> ''KEY'', ''RETRY_ON_FAIL'' \<mapsto> []])
      ready_world [] =
     Some (Inr False,
       [Call [''/opt/nessus/sbin/nessuscli'', ''fix'', ''--secure'', ''--set'', ''managed=managed''],
        Check_output [''/opt/nessus/sbin/nessuscli'', ''managed'', ''link'', ''--key=KEY'',
          ''--name=scanner'', ''--host=cloud.tenable.com'', ''--port=443'']])"
  using retry_flag_nonempty [where w = ready_world and tr = "[]" and rc = 0
      and ?tr1.0 = "[Call [''/opt/nessus/sbin/nessuscli'', ''fix'', ''--secure'', ''--set'',
                          ''managed=managed'']]"
      and h = "''scanner''"
      and env = "[''LINKING_KEY'' \<mapsto> ''KEY'', ''RETRY_ON_FAIL'' \<mapsto> ''false'']"
      and linked = "LBool False"
      and ?tr2.0 = "[Call [''/opt/nessus/sbin/nessuscli'', ''fix'', ''--secure'', ''--set'',
                          ''managed=managed''],
        Check_output [''/opt/nessus/sbin/nessuscli'', ''managed'', ''link'', ''--key=KEY'',
          ''--name=scanner'', ''--host=cloud.tenable.com'', ''--port=443'']]"]
    retry_flag_nonempty [where w = ready_world and tr = "[]" and rc = 0
      and ?tr1.0 = "[Call [''/opt/nessus/sbin/nessuscli'', ''fix'', ''--secure'', ''--set'',
                          ''managed=managed'']]"
      and h = "''scanner''"
      and env = "[''LINKING_KEY'' \<mapsto> ''KEY'', ''RETRY_ON_FAIL'' \<mapsto> []]"
      and linked = "LBool False"
      and ?tr2.0 = "[Call [''/opt/nessus/sbin/nessuscli'', ''fix'', ''--secure'', ''--set'',
                          ''managed=managed''],
        Check_output [''/opt/nessus/sbin/nessuscli'', ''managed'', ''link'', ''--key=KEY'',
          ''--name=scanner'', ''--host=cloud.tenable.com'', ''--port=443'']]"]
  by (simp add: world_defs run_defs link_defs load_config_def getenv_def getenv_str_def Let_def
        retry_link_unfold py_int_def)

subsection \<open>Exit status\<close>

lemma cli_configure_True: "cli_configure cfg w tr = (Inr c, tr') \<Longrightarrow> c"
  by (auto simp: cli_configure_def bind_def ret_def split: prod.splits sum.splits if_splits)

text \<open>
  Claim C9. When the script reaches the activation step with a non-empty activation code
  and the registration command, or the start of the service after it, returns a non-zero
  status, \<^verbatim>\<open>activate\<close> returns \<^verbatim>\<open>False\<close> and the script still ends with exit status 0.
\<close>

theorem activation_failure_exits_0:
  assumes "wait_for_global_db cfg w [] = (Inr True, tr1)"
    and "add_user cfg w tr1 = (Inr user_added, tr2)" and "truthy user_added"
    and "cli_configure cfg w tr2 = (Inr c, tr3)"
    and "ACTIVATION_CODE cfg = Some code" and "code \<noteq> []"
    and "call_status w tr3 [''supervisorctl'', ''stop'', ''nessusd''] = Returned r0"
    and "call_status w (tr3 @ [Call [''supervisorctl'', ''stop'', ''nessusd'']])
           [nessuscli, ''fetch'', ''--register'', code] = Returned r1"
    and "r1 \<noteq> 0 \<or>
         (\<exists>r2. call_status w (tr3 @ [Call [''supervisorctl'', ''stop'', ''nessusd''],
                                     Call [nessuscli, ''fetch'', ''--register'', code]])
                  [''supervisorctl'', ''start'', ''nessusd''] = Returned r2 \<and> r2 \<noteq> 0)"
  shows "\<exists>tr4. activate cfg w code tr3 = (Inr False, tr4)
             \<and> main cfg w = Some (Inr 0, tr4) \<and> exit_status cfg w = Some 0"
proof -
  from assms(4) have c by (rule cli_configure_True)
  from assms(7,8,9) have "\<exists>tr4. activate cfg w code tr3 = (Inr False, tr4)"
    by (cases "r1 = 0") (auto simp: activate_def bind_def ret_def subprocess_call_def)
  then obtain tr4 where act: "activate cfg w code tr3 = (Inr False, tr4)" ..
  have "main cfg w = Some (Inr 0, tr4)"
    using assms(1-6) \<open>c\<close> act by (simp add: main_def)
  with act show ?thesis by (simp add: exit_status_def)
qed

theorem activation_failure_exits_0_witness:
  "main activation_config unregistered_world =
     Some (Inr 0, settings_trace @
        [Call [''supervisorctl'', ''stop'', ''nessusd''],
         Call [''/opt/nessus/sbin/nessuscli'', ''fetch'', ''--register'', ''CODE'']])
   \<and> exit_status activation_config unregistered_world = Some 0"
proof -
  have 1: "wait_for_global_db activation_config unregistered_world [] = (Inr True, ready_trace)"
    by (simp add: wait_ready world_defs config_defs trace_defs)
  have 2: "add_user activation_config unregistered_world ready_trace
             = (Inr (PBool True), licensed_trace)"
    by (simp add: world_defs config_defs trace_defs run_defs)
  have 3: "cli_configure activation_config unregistered_world licensed_trace
             = (Inr True, settings_trace)"
    by (simp add: world_defs config_defs trace_defs run_defs)
  have 4: "ACTIVATION_CODE activation_config = Some ''CODE''"
    by (simp add: config_defs)
  have 5: "call_status unregistered_world settings_trace [''supervisorctl'', ''stop'', ''nessusd'']
             = Returned 0"
    by (simp add: world_defs nessuscli_def)
  have 6: "call_status unregistered_world
             (settings_trace @ [Call [''supervisorctl'', ''stop'', ''nessusd'']])
             [nessuscli, ''fetch'', ''--register'', ''CODE''] = Returned 1"
    by (simp add: world_defs)
  from activation_failure_exits_0 [OF 1 2 _ 3 4 _ 5 6]
  show ?thesis
    by (simp add: activate_def bind_def ret_def subprocess_call_def world_defs nessuscli_def)
qed


text \<open>
  Claim C5, as amended. The exit status is 3 when the wait for the database returns
  \<^verbatim>\<open>False\<close>, when \<^verbatim>\<open>add_user\<close> returns a false value and when
  \<^verbatim>\<open>configure_managed_scanner\<close> returns \<^verbatim>\<open>False\<close>; it is 0 when neither an activation
  code nor a linking key is present, after an activation attempt whatever its result,
  and when \<^verbatim>\<open>configure_managed_scanner\<close> returns \<^verbatim>\<open>True\<close>. \<^verbatim>\<open>cli_configure\<close> returns
  \<^verbatim>\<open>True\<close> whenever it returns, so a failing settings command never changes the exit
  status. An exception that nothing catches ends the process with 1.
\<close>

theorem exit_codes:
  "(wait_for_global_db cfg w [] = (Inr False, tr1) \<longrightarrow> exit_status cfg w = Some 3)
   \<and> (wait_for_global_db cfg w [] = (Inr True, tr1) \<and> add_user cfg w tr1 = (Inr u, tr2)
        \<and> \<not> truthy u \<longrightarrow> exit_status cfg w = Some 3)
   \<and> (cli_configure cfg w tr2 = (Inr c, tr3) \<longrightarrow> c)
   \<and> (wait_for_global_db cfg w [] = (Inr True, tr1) \<and> add_user cfg w tr1 = (Inr u, tr2)
        \<and> truthy u \<and> cli_configure cfg w tr2 = (Inr c, tr3)
      \<longrightarrow> (\<not> truthy (opt_val (ACTIVATION_CODE cfg)) \<and> \<not> truthy (opt_val (LINKING_KEY cfg))
             \<longrightarrow> exit_status cfg w = Some 0)
        \<and> (truthy (opt_val (ACTIVATION_CODE cfg)) \<and>
            activate cfg w (py_str (opt_val (ACTIVATION_CODE cfg))) tr3 = (Inr a, tr4)
             \<longrightarrow> exit_status cfg w = Some 0)
        \<and> (\<not> truthy (opt_val (ACTIVATION_CODE cfg)) \<and> truthy (opt_val (LINKING_KEY cfg))
            \<and> configure_managed_scanner cfg w tr3 = Some (Inr b, tr4)
             \<longrightarrow> exit_status cfg w = Some (if b then 0 else 3)))
   \<and> (main cfg w = Some (Inl e, tr) \<longrightarrow> exit_status cfg w = Some 1)"
proof (intro conjI impI; (elim conjE)?)
  assume "wait_for_global_db cfg w [] = (Inr False, tr1)"
  then show "exit_status cfg w = Some 3"
    by (simp add: exit_status_def main_def)
next
  assume "wait_for_global_db cfg w [] = (Inr True, tr1)" "add_user cfg w tr1 = (Inr u, tr2)"
    "\<not> truthy u"
  then show "exit_status cfg w = Some 3"
    by (simp add: exit_status_def main_def)
next
  assume "cli_configure cfg w tr2 = (Inr c, tr3)"
  then show c by (rule cli_configure_True)
next
  assume "wait_for_global_db cfg w [] = (Inr True, tr1)" "add_user cfg w tr1 = (Inr u, tr2)"
    "truthy u" "cli_configure cfg w tr2 = (Inr c, tr3)"
    "\<not> truthy (opt_val (ACTIVATION_CODE cfg))" "\<not> truthy (opt_val (LINKING_KEY cfg))"
  then show "exit_status cfg w = Some 0"
    using cli_configure_True [of cfg w tr2 c tr3] by (simp add: exit_status_def main_def)
next
  assume "wait_for_global_db cfg w [] = (Inr True, tr1)" "add_user cfg w tr1 = (Inr u, tr2)"
    "truthy u" "cli_configure cfg w tr2 = (Inr c, tr3)"
    "truthy (opt_val (ACTIVATION_CODE cfg))"
    "activate cfg w (py_str (opt_val (ACTIVATION_CODE cfg))) tr3 = (Inr a, tr4)"
  then show "exit_status cfg w = Some 0"
    using cli_configure_True [of cfg w tr2 c tr3] by (simp add: exit_status_def main_def)
next
  assume "wait_for_global_db cfg w [] = (Inr True, tr1)" "add_user cfg w tr1 = (Inr u, tr2)"
    "truthy u" "cli_configure cfg w tr2 = (Inr c, tr3)"
    "\<not> truthy (opt_val (ACTIVATION_CODE cfg))" "truthy (opt_val (LINKING_KEY cfg))"
    "configure_managed_scanner cfg w tr3 = Some (Inr b, tr4)"
  then show "exit_status cfg w = Some (if b then 0 else 3)"
    using cli_configure_True [of cfg w tr2 c tr3]
    by (simp add: exit_status_def main_def main_link_def)
next
  assume "main cfg w = Some (Inl e, tr)"
  then show "exit_status cfg w = Some 1"
    by (simp add: exit_status_def)
qed


theorem exit_codes_witness:
  "exit_status (default_config\<lparr>GLOBAL_DB_TIMEOUT := PStr ''2''\<rparr>) quiet_world = Some 3
   \<and> exit_status (default_config\<lparr>LINKING_KEY := Some ''KEY''\<rparr>) ready_world = Some 3
   \<and> exit_status default_config ready_world = Some 0
   \<and> exit_status activation_config unregistered_world = Some 0
   \<and> exit_status linked_config licensed_world = Some 3
   \<and> exit_status linked_config (licensed_world\<lparr>check_output_result := (\<lambda>tr cmd. Output ''Linked'')\<rparr>)
       = Some 0
   \<and> exit_status admin_config ready_world = Some 1"
proof -
  have a: "exit_status (default_config\<lparr>GLOBAL_DB_TIMEOUT := PStr ''2''\<rparr>) quiet_world = Some 3"
    using exit_codes [where cfg = "default_config\<lparr>GLOBAL_DB_TIMEOUT := PStr ''2''\<rparr>"
        and w = quiet_world
        and ?tr1.0 = "[Exists global_db, Sleep 1, Exists global_db, Sleep 1]"]
    by (simp add: config_defs world_defs decimal_def py_int_def ret_def wait_for_global_db_def
        bind_def path_exists_io_def sleep_def numeral_2_eq_2)
  have b: "exit_status (default_config\<lparr>LINKING_KEY := Some ''KEY''\<rparr>) ready_world = Some 3"
    using exit_codes [where cfg = "default_config\<lparr>LINKING_KEY := Some ''KEY''\<rparr>"
        and w = ready_world and ?tr1.0 = ready_trace and u = "PBool False"
        and ?tr2.0 = ready_trace]
    by (simp add: config_defs world_defs trace_defs wait_ready add_user_def ret_def)
  have c: "exit_status default_config ready_world = Some 0"
    using exit_codes [where cfg = default_config and w = ready_world and ?tr1.0 = ready_trace
        and u = "PBool True" and ?tr2.0 = ready_trace and c = True
        and ?tr3.0 = "ready_trace @
          [Call [''/opt/nessus/sbin/nessuscli'', ''fix'', ''--set'', ''--secure'', ''ms_name=scanner''],
           Call [''/opt/nessus/sbin/nessuscli'', ''fix'', ''--set'', ''auto_update=True''],
           Call [''supervisorctl'', ''restart'', ''nessusd'']]"]
    by (simp add: config_defs world_defs trace_defs wait_ready run_defs)
  have d: "exit_status activation_config unregistered_world = Some 0"
    using exit_codes [where cfg = activation_config and w = unregistered_world
        and ?tr1.0 = ready_trace and u = "PBool True" and ?tr2.0 = licensed_trace and c = True
        and ?tr3.0 = settings_trace and a = False
        and ?tr4.0 = "settings_trace @
          [Call [''supervisorctl'', ''stop'', ''nessusd''],
           Call [''/opt/nessus/sbin/nessuscli'', ''fetch'', ''--register'', ''CODE'']]"]
    by (simp add: config_defs world_defs trace_defs wait_ready run_defs)
  let ?linked_settings = "licensed_trace @
          [Call [''/opt/nessus/sbin/nessuscli'', ''fix'', ''--set'', ''--secure'', ''ms_name=scanner''],
           Call [''/opt/nessus/sbin/nessuscli'', ''fix'', ''--set'', ''auto_update=True''],
           Call [''/opt/nessus/sbin/nessuscli'', ''fix'', ''--set'', ''disable_core_updates=no''],
           Call [''supervisorctl'', ''restart'', ''nessusd'']]"
  let ?linked_end = "?linked_settings @
          [Call [''/opt/nessus/sbin/nessuscli'', ''fix'', ''--secure'', ''--set'', ''managed=managed''],
           Check_output [''/opt/nessus/sbin/nessuscli'', ''managed'', ''link'', ''--key=KEY'',
             ''--name=scanner'', ''--host=cloud.tenable.com'', ''--port=443'']]"
  have e: "exit_status linked_config licensed_world = Some 3"
    using exit_codes [where cfg = linked_config and w = licensed_world
        and ?tr1.0 = ready_trace and u = "PBool True" and ?tr2.0 = licensed_trace and c = True
        and ?tr3.0 = ?linked_settings and b = False and ?tr4.0 = ?linked_end]
    by (simp add: config_defs world_defs trace_defs wait_ready run_defs link_defs)
  have f: "exit_status linked_config
             (licensed_world\<lparr>check_output_result := (\<lambda>tr cmd. Output ''Linked'')\<rparr>) = Some 0"
    using exit_codes [where cfg = linked_config
        and w = "licensed_world\<lparr>check_output_result := (\<lambda>tr cmd. Output ''Linked'')\<rparr>"
        and ?tr1.0 = ready_trace and u = "PBool True" and ?tr2.0 = licensed_trace and c = True
        and ?tr3.0 = ?linked_settings and b = True and ?tr4.0 = ?linked_end]
    by (simp add: config_defs world_defs trace_defs wait_ready run_defs link_defs)
  have g: "exit_status admin_config ready_world = Some 1"
    using exit_codes [where cfg = admin_config and w = ready_world and e = PexpectTIMEOUT
        and tr = "ready_trace @ [Spawn ''/opt/nessus/sbin/nessuscli adduser'',
           Expect [''Login:'', ''Your license does not allow you to create more than one user'']
             Timeout]"]
    by (simp add: config_defs world_defs trace_defs wait_ready run_defs main_def)
  from a b c d e f g show ?thesis by simp
qed

text \<open>
  Every settings command exits with 1, \<^verbatim>\<open>nessus_config\<close> returns \<^verbatim>\<open>False\<close>, and the
  script ends with exit status 0.
\<close>

theorem exit_codes_counterexample:
  "fst (nessus_config failing_settings_world (PStr ''ms_name'') (PStr ''scanner'') True
          [Exists global_db, Getsize global_db]) = Inr False
   \<and> exit_status default_config failing_settings_world = Some 0"
  by (simp add: config_defs world_defs wait_ready run_defs main_def exit_status_def)

end
